theory Spec2Isabelle
  imports Main "HOL-Library.Word"
begin

section \<open>The C library primitives used by ha\_ircon.cc\<close>

text \<open>
  Memory areas are byte lists. A C string is the run of bytes before the first
  terminator; a read that finds no terminator inside the area, and a write
  outside the area, have no defined behaviour in C and are results of their own
  in the model.
\<close>

datatype fault = BufferOverrun | UnterminatedRead

definition NUL :: char where
  "NUL = CHR 0x00"

definition c_str :: "char list \<Rightarrow> string" where
  "c_str bs = takeWhile (\<lambda>c. c \<noteq> NUL) bs"

text \<open>A string literal, or any well-formed C string, as the bytes found at its address.\<close>

definition lit :: "string \<Rightarrow> char list" where
  "lit s = s @ [NUL]"

text \<open>The string \<open>strlen\<close> delimits in a buffer: it needs a terminator inside.\<close>

definition read_cstr :: "char list \<Rightarrow> fault + string" where
  "read_cstr buf = (if NUL \<in> set buf then Inr (c_str buf) else Inl UnterminatedRead)"

text \<open>
  \<open>strncpy(dst, src, n)\<close> writes exactly \<open>n\<close> bytes: the bytes of \<open>src\<close> up to its
  terminator or up to \<open>n\<close>, then terminators as padding. It adds no terminator
  when \<open>src\<close> has \<open>n\<close> bytes or more.
\<close>

definition strncpy_bytes :: "char list \<Rightarrow> nat \<Rightarrow> char list" where
  "strncpy_bytes src n = (let s = c_str (take n src) in s @ replicate (n - length s) NUL)"

definition strncpy :: "char list \<Rightarrow> char list \<Rightarrow> nat \<Rightarrow> fault + char list" where
  "strncpy dst src n =
     (if n \<le> length dst then Inr (strncpy_bytes src n @ drop n dst) else Inl BufferOverrun)"

text \<open>The assignment \<open>dst[i] = c\<close>.\<close>

definition poke :: "char list \<Rightarrow> nat \<Rightarrow> char \<Rightarrow> fault + char list" where
  "poke dst i c = (if i < length dst then Inr (dst[i := c]) else Inl BufferOverrun)"

text \<open>
  \<open>strncmp(a, b, n) == 0\<close> for two C strings given by their characters: the
  first \<open>n\<close> positions agree, the terminator being a position like any other.
\<close>

definition strncmp_is0 :: "string \<Rightarrow> string \<Rightarrow> nat \<Rightarrow> bool" where
  "strncmp_is0 a b n = (take n (lit a) = take n (lit b))"

text \<open>
  \<open>atoi\<close>: white space, an optional sign, then decimal digits up to the first
  other byte. The bytes are those readable at the argument; running off their
  end is a read without terminator. The value is that of the C library the
  engine is built against, where \<open>atoi\<close> is \<open>strtol\<close> converted to \<open>int\<close>:
  \<open>strtol\<close> stops at the ends of the 64-bit \<open>long\<close>, and the conversion keeps
  the low 32 bits as a signed value.
\<close>

definition isspace :: "char \<Rightarrow> bool" where
  "isspace c = (c = CHR '' '' \<or> (9 \<le> (of_char c :: nat) \<and> (of_char c :: nat) \<le> 13))"

definition isdigit :: "char \<Rightarrow> bool" where
  "isdigit c = (48 \<le> (of_char c :: nat) \<and> (of_char c :: nat) \<le> 57)"

fun skip_space :: "char list \<Rightarrow> fault + char list" where
  "skip_space [] = Inl UnterminatedRead"
| "skip_space (c # cs) = (if isspace c then skip_space cs else Inr (c # cs))"

fun digits :: "char list \<Rightarrow> int \<Rightarrow> fault + int" where
  "digits [] acc = Inl UnterminatedRead"
| "digits (c # cs) acc =
     (if isdigit c then digits cs (acc * 10 + (int (of_char c) - 48)) else Inr acc)"

definition strtol_sat :: "int \<Rightarrow> int" where
  "strtol_sat v = max (- (2 ^ 63)) (min (2 ^ 63 - 1) v)"

definition int_of_long :: "int \<Rightarrow> int" where
  "int_of_long v = sint (word_of_int v :: 32 word)"

definition atoi :: "char list \<Rightarrow> fault + int" where
  "atoi bs =
     (case skip_space bs of
        Inl e \<Rightarrow> Inl e
      | Inr [] \<Rightarrow> Inl UnterminatedRead
      | Inr (c # cs) \<Rightarrow>
          (if c = CHR ''-'' then
             (case digits cs 0 of Inl e \<Rightarrow> Inl e | Inr v \<Rightarrow> Inr (int_of_long (strtol_sat (- v))))
           else if c = CHR ''+'' then
             (case digits cs 0 of Inl e \<Rightarrow> Inl e | Inr v \<Rightarrow> Inr (int_of_long (strtol_sat v)))
           else
             (case digits (c # cs) 0 of
                Inl e \<Rightarrow> Inl e
              | Inr v \<Rightarrow> Inr (int_of_long (strtol_sat v)))))"

section \<open>Constants of ha\_ircon.h and of the server headers\<close>

text \<open>
  Modelled from the spec: the header ha\_ircon.h is not among the sources. The
  four recognized attribute names and the sentinel are the strings the
  specification gives for \<open>IRCON_COMMAND_MODE\<close>, \<open>IRCON_COMMAND_TEMPERATURE\<close>,
  \<open>IRCON_COMMAND_POWER\<close>, \<open>IRCON_COMMAND_ANGLE\<close> and \<open>IRCON_COMMAND_UNKNOWN\<close>.
  The two numeric macros \<open>IRCON_DEFAULT_PORT\<close> and \<open>IRCON_COMMAND_LENGTH\<close>
  have no value in the specification; every operation that uses one takes it
  as an argument (\<open>dport\<close>, \<open>L\<close>). The four attribute buffers of the share are
  the fixed-length buffers of the specification; their declaration is in the
  header too, so the results ask only that each holds \<open>L\<close> bytes or more.
\<close>

definition IRCON_COMMAND_MODE :: string where
  "IRCON_COMMAND_MODE = ''mode''"

definition IRCON_COMMAND_TEMPERATURE :: string where
  "IRCON_COMMAND_TEMPERATURE = ''temperature''"

definition IRCON_COMMAND_POWER :: string where
  "IRCON_COMMAND_POWER = ''power''"

definition IRCON_COMMAND_ANGLE :: string where
  "IRCON_COMMAND_ANGLE = ''angle''"

definition IRCON_COMMAND_UNKNOWN :: string where
  "IRCON_COMMAND_UNKNOWN = ''unknown''"

text \<open>The handler error codes of the server's my\_base.h.\<close>

definition HA_ERR_WRONG_COMMAND :: int where
  "HA_ERR_WRONG_COMMAND = 131"

definition HA_ERR_END_OF_FILE :: int where
  "HA_ERR_END_OF_FILE = 137"

section \<open>Data model\<close>

text \<open>
  A column of the table: its name, its declared length, and its value in the
  current record (what \<open>val_str\<close> extracts and what \<open>store\<close> sets; the
  conversions of the column type are the server's).
\<close>

record Field =
  field_name :: string
  field_length :: nat
  cell :: string

record Ircon_share =
  socket_opened :: bool
  socket :: int
  state_mode :: "char list"
  state_temperature :: "char list"
  state_power :: "char list"
  state_angle :: "char list"

record sockaddr_in =
  sin_host :: string
  sin_port :: "16 word"

text \<open>
  One handler together with what it reaches: the share slot of the table
  (\<open>share_set\<close> tells whether \<open>get_ha_share_ptr()\<close> is non-null), the table's
  name and columns, the address last given to \<open>connect\<close>, whether that
  \<open>connect\<close> succeeded, and the bytes handed to \<open>send\<close> on the share's socket,
  oldest first.
\<close>

record ha_ircon =
  share_set :: bool
  share :: Ircon_share
  next_is_eof :: bool
  stats_records :: "64 word"
  table_name :: string
  table :: "Field list"
  connect_addr :: "sockaddr_in option"
  link_up :: bool
  sent :: "char list"

text \<open>What the environment answers during \<open>open\<close>.\<close>

record open_env =
  new_share :: "Ircon_share option"
  socket_ret :: int
  connect_ret :: int

datatype attr = Mode | Temperature | Power | Angle

fun attr_buf :: "attr \<Rightarrow> Ircon_share \<Rightarrow> char list" where
  "attr_buf Mode sh = state_mode sh"
| "attr_buf Temperature sh = state_temperature sh"
| "attr_buf Power sh = state_power sh"
| "attr_buf Angle sh = state_angle sh"

fun set_attr_buf :: "attr \<Rightarrow> char list \<Rightarrow> Ircon_share \<Rightarrow> Ircon_share" where
  "set_attr_buf Mode b sh = sh\<lparr>state_mode := b\<rparr>"
| "set_attr_buf Temperature b sh = sh\<lparr>state_temperature := b\<rparr>"
| "set_attr_buf Power b sh = sh\<lparr>state_power := b\<rparr>"
| "set_attr_buf Angle b sh = sh\<lparr>state_angle := b\<rparr>"

section \<open>Unsupported operations\<close>

text \<open>
  Each of these returns \<open>HA_ERR_WRONG_COMMAND\<close>; their pointer arguments are
  never read, and the probe macros around the assignment touch no state.
\<close>

definition index_read_map :: "ha_ircon \<Rightarrow> int \<times> ha_ircon" where
  "index_read_map st = (HA_ERR_WRONG_COMMAND, st)"

definition index_next :: "ha_ircon \<Rightarrow> int \<times> ha_ircon" where
  "index_next st = (HA_ERR_WRONG_COMMAND, st)"

definition index_prev :: "ha_ircon \<Rightarrow> int \<times> ha_ircon" where
  "index_prev st = (HA_ERR_WRONG_COMMAND, st)"

definition index_first :: "ha_ircon \<Rightarrow> int \<times> ha_ircon" where
  "index_first st = (HA_ERR_WRONG_COMMAND, st)"

definition index_last :: "ha_ircon \<Rightarrow> int \<times> ha_ircon" where
  "index_last st = (HA_ERR_WRONG_COMMAND, st)"

definition rnd_pos :: "ha_ircon \<Rightarrow> int \<times> ha_ircon" where
  "rnd_pos st = (HA_ERR_WRONG_COMMAND, st)"

definition delete_all_rows :: "ha_ircon \<Rightarrow> int \<times> ha_ircon" where
  "delete_all_rows st = (HA_ERR_WRONG_COMMAND, st)"

definition ha_truncate :: "ha_ircon \<Rightarrow> int \<times> ha_ircon" where
  "ha_truncate st = (HA_ERR_WRONG_COMMAND, st)"

section \<open>Opening and closing\<close>

text \<open>
  \<open>get_share\<close>: the share of the table, created on first use. The constructor
  sets \<open>socket_opened\<close> only; the attribute buffers keep whatever the storage
  held. \<open>None\<close> is the null pointer.
\<close>

definition get_share :: "open_env \<Rightarrow> ha_ircon \<Rightarrow> ha_ircon option" where
  "get_share env st =
     (if share_set st then Some st
      else (case new_share env of
              None \<Rightarrow> None
            | Some raw \<Rightarrow> Some (st\<lparr>share_set := True, share := raw\<lparr>socket_opened := False\<rparr>\<rparr>)))"

text \<open>The four \<open>strncpy\<close> calls that \<open>open\<close> and \<open>delete_row\<close> both make.\<close>

definition reset_state :: "nat \<Rightarrow> Ircon_share \<Rightarrow> fault + Ircon_share" where
  "reset_state L sh =
     (case strncpy (state_mode sh) (lit IRCON_COMMAND_UNKNOWN) L of
        Inl e \<Rightarrow> Inl e
      | Inr m \<Rightarrow>
     (case strncpy (state_temperature sh) (lit IRCON_COMMAND_UNKNOWN) L of
        Inl e \<Rightarrow> Inl e
      | Inr t \<Rightarrow>
     (case strncpy (state_power sh) (lit IRCON_COMMAND_UNKNOWN) L of
        Inl e \<Rightarrow> Inl e
      | Inr p \<Rightarrow>
     (case strncpy (state_angle sh) (lit IRCON_COMMAND_UNKNOWN) L of
        Inl e \<Rightarrow> Inl e
      | Inr a \<Rightarrow>
          Inr (sh\<lparr>state_mode := m, state_temperature := t, state_power := p,
                  state_angle := a\<rparr>)))))"

text \<open>The position of the first colon, counted from \<open>i\<close>: the scan of the 32-byte buffer.\<close>

primrec colon_index :: "char list \<Rightarrow> nat \<Rightarrow> nat option" where
  "colon_index [] i = None"
| "colon_index (c # cs) i = (if c = CHR '':'' then Some i else colon_index cs (Suc i))"

text \<open>
  Lines 298 to 310 of \<open>open\<close>: the table name is copied into a 32-byte buffer,
  the first colon found there becomes a terminator, the text behind it goes
  through \<open>atoi\<close> unless the colon is the last byte, and a port of 0 becomes
  the default port. The result is the host text handed to \<open>inet_addr\<close> and
  the port handed to \<open>htons\<close>.
\<close>

definition host_port :: "int \<Rightarrow> string \<Rightarrow> fault + (string \<times> int)" where
  "host_port dport name =
     (let buf = strncpy_bytes (lit name) 32 in
      (case (case colon_index buf 0 of
               None \<Rightarrow> Inr (buf, 0)
             | Some i \<Rightarrow>
                 (if i < 31 then
                    (case atoi (drop (Suc i) buf) of
                       Inl e \<Rightarrow> Inl e
                     | Inr p \<Rightarrow> Inr (buf[i := NUL], p))
                  else Inr (buf[i := NUL], 0))) of
         Inl e \<Rightarrow> Inl e
       | Inr (buf', port) \<Rightarrow>
           (case read_cstr buf' of
              Inl e \<Rightarrow> Inl e
            | Inr host \<Rightarrow> Inr (host, if port = 0 then dport else port))))"

text \<open>
  \<open>ha_ircon::open\<close>. The value of \<open>socket\<close> is tested, the value of \<open>connect\<close>
  is not. \<open>htons\<close> takes the port as a 16-bit unsigned value.
\<close>

definition ha_ircon_open ::
  "int \<Rightarrow> nat \<Rightarrow> open_env \<Rightarrow> ha_ircon \<Rightarrow> fault + (int \<times> ha_ircon)" where
  "ha_ircon_open dport L env st0 =
     (case get_share env st0 of
        None \<Rightarrow> Inr (1, st0)
      | Some st \<Rightarrow>
          (if socket_opened (share st) then Inr (0, st)
           else
             (let st1 = st\<lparr>share := (share st)\<lparr>socket := socket_ret env\<rparr>\<rparr> in
              if socket_ret env < 0 then Inr (- 1, st1)
              else
                (case host_port dport (table_name st1) of
                   Inl e \<Rightarrow> Inl e
                 | Inr (host, port) \<Rightarrow>
                     (case reset_state L ((share st1)\<lparr>socket_opened := True\<rparr>) of
                        Inl e \<Rightarrow> Inl e
                      | Inr sh \<Rightarrow>
                          Inr (0, st1\<lparr>share := sh,
                                     connect_addr :=
                                       Some \<lparr>sin_host = host, sin_port = word_of_int port\<rparr>,
                                     link_up := (connect_ret env = 0)\<rparr>))))))"

text \<open>\<open>ha_ircon::close\<close>.\<close>

definition ha_ircon_close :: "ha_ircon \<Rightarrow> int \<times> ha_ircon" where
  "ha_ircon_close st = (0, st\<lparr>share := (share st)\<lparr>socket_opened := False\<rparr>, link_up := False\<rparr>)"

section \<open>Writing, updating and deleting\<close>

text \<open>
  The chain of comparisons of \<open>write_update_row\<close>: the bound is the length of
  the column's own name.
\<close>

definition write_match :: "string \<Rightarrow> attr option" where
  "write_match name =
     (if strncmp_is0 name IRCON_COMMAND_MODE (length name) then Some Mode
      else if strncmp_is0 name IRCON_COMMAND_TEMPERATURE (length name) then Some Temperature
      else if strncmp_is0 name IRCON_COMMAND_POWER (length name) then Some Power
      else if strncmp_is0 name IRCON_COMMAND_ANGLE (length name) then Some Angle
      else None)"

text \<open>Lines 398 and 399, and their three copies: the copy is bounded by the value's length.\<close>

definition store_attribute :: "char list \<Rightarrow> string \<Rightarrow> fault + char list" where
  "store_attribute dst a =
     (case strncpy dst a (length a) of
        Inl e \<Rightarrow> Inl e
      | Inr d \<Rightarrow> poke d (length a) NUL)"

text \<open>One turn of the loop of \<open>write_update_row\<close>.\<close>

definition write_field :: "Field \<Rightarrow> ha_ircon \<Rightarrow> fault + ha_ircon" where
  "write_field f st =
     (case write_match (field_name f) of
        None \<Rightarrow> Inr st
      | Some a \<Rightarrow>
          (case (if 0 < length (cell f) then store_attribute (attr_buf a (share st)) (cell f)
                 else Inr (attr_buf a (share st))) of
             Inl e \<Rightarrow> Inl e
           | Inr b \<Rightarrow>
               (case read_cstr b of
                  Inl e \<Rightarrow> Inl e
                | Inr v \<Rightarrow>
                    Inr (st\<lparr>share := set_attr_buf a b (share st),
                            sent := sent st @ field_name f @ '':'' @ v @ '',''\<rparr>))))"

fun write_fields :: "Field list \<Rightarrow> ha_ircon \<Rightarrow> fault + ha_ircon" where
  "write_fields [] st = Inr st"
| "write_fields (f # fs) st =
     (case write_field f st of Inl e \<Rightarrow> Inl e | Inr st' \<Rightarrow> write_fields fs st')"

definition write_update_row :: "ha_ircon \<Rightarrow> fault + (int \<times> ha_ircon)" where
  "write_update_row st =
     (case write_fields (table st) st of
        Inl e \<Rightarrow> Inl e
      | Inr st' \<Rightarrow> Inr (0, st'\<lparr>sent := sent st' @ [CHR 0x0A]\<rparr>))"

text \<open>The record images passed to \<open>write_row\<close> and \<open>update_row\<close> are not read.\<close>

definition write_row :: "string list \<Rightarrow> ha_ircon \<Rightarrow> fault + (int \<times> ha_ircon)" where
  "write_row buf st = write_update_row st"

definition update_row ::
  "string list \<Rightarrow> string list \<Rightarrow> ha_ircon \<Rightarrow> fault + (int \<times> ha_ircon)" where
  "update_row old_data new_data st = write_update_row st"

definition delete_row :: "nat \<Rightarrow> ha_ircon \<Rightarrow> fault + (int \<times> ha_ircon)" where
  "delete_row L st =
     (case reset_state L (share st) of
        Inl e \<Rightarrow> Inl e
      | Inr sh \<Rightarrow> Inr (0, st\<lparr>share := sh, sent := sent st @ ''mode:-,'' @ [CHR 0x0A]\<rparr>))"

section \<open>Table scan\<close>

definition rnd_init :: "ha_ircon \<Rightarrow> int \<times> ha_ircon" where
  "rnd_init st = (0, st\<lparr>next_is_eof := False\<rparr>)"

text \<open>The chain of comparisons of \<open>rnd_next\<close>: the bound is the column's declared length.\<close>

definition read_match :: "string \<Rightarrow> nat \<Rightarrow> attr option" where
  "read_match name flen =
     (if strncmp_is0 name IRCON_COMMAND_MODE flen then Some Mode
      else if strncmp_is0 name IRCON_COMMAND_TEMPERATURE flen then Some Temperature
      else if strncmp_is0 name IRCON_COMMAND_POWER flen then Some Power
      else if strncmp_is0 name IRCON_COMMAND_ANGLE flen then Some Angle
      else None)"

text \<open>One turn of the loop of \<open>rnd_next\<close>: \<open>res\<close> is chosen, measured and stored.\<close>

definition read_field :: "Ircon_share \<Rightarrow> Field \<Rightarrow> fault + Field" where
  "read_field sh f =
     (case read_cstr (case read_match (field_name f) (field_length f) of
                        Some a \<Rightarrow> attr_buf a sh
                      | None \<Rightarrow> lit IRCON_COMMAND_UNKNOWN) of
        Inl e \<Rightarrow> Inl e
      | Inr v \<Rightarrow> Inr (f\<lparr>cell := v\<rparr>))"

fun store_fields :: "Ircon_share \<Rightarrow> Field list \<Rightarrow> fault + Field list" where
  "store_fields sh [] = Inr []"
| "store_fields sh (f # fs) =
     (case read_field sh f of
        Inl e \<Rightarrow> Inl e
      | Inr f' \<Rightarrow> (case store_fields sh fs of Inl e \<Rightarrow> Inl e | Inr fs' \<Rightarrow> Inr (f' # fs')))"

text \<open>
  \<open>rnd_next\<close>. Clearing the null bytes of the record has no counterpart here:
  a column's value is what was last stored in it.
\<close>

definition rnd_next :: "ha_ircon \<Rightarrow> fault + (int \<times> ha_ircon)" where
  "rnd_next st =
     (if next_is_eof st then Inr (HA_ERR_END_OF_FILE, st)
      else
        (case store_fields (share st) (table st) of
           Inl e \<Rightarrow> Inl e
         | Inr fs \<Rightarrow>
             Inr (0, st\<lparr>table := fs, stats_records := stats_records st + 1,
                        next_is_eof := True\<rparr>)))"

section \<open>Well-formed shares, rows, scan cycles and concrete inputs\<close>

definition share_sized :: "nat \<Rightarrow> Ircon_share \<Rightarrow> bool" where
  "share_sized L sh =
     (L \<le> length (state_mode sh) \<and> L \<le> length (state_temperature sh) \<and>
      L \<le> length (state_power sh) \<and> L \<le> length (state_angle sh))"

definition share_terminated :: "Ircon_share \<Rightarrow> bool" where
  "share_terminated sh =
     (NUL \<in> set (state_mode sh) \<and> NUL \<in> set (state_temperature sh) \<and>
      NUL \<in> set (state_power sh) \<and> NUL \<in> set (state_angle sh))"

text \<open>The cached value of an attribute, as a reader of the buffer sees it.\<close>

definition cached :: "attr \<Rightarrow> Ircon_share \<Rightarrow> string" where
  "cached a sh = c_str (attr_buf a sh)"

text \<open>The row a scan builds from a share: per column, the matched attribute or the sentinel.\<close>

definition row_of :: "Ircon_share \<Rightarrow> Field list \<Rightarrow> Field list" where
  "row_of sh fs =
     map (\<lambda>f. f\<lparr>cell := (case read_match (field_name f) (field_length f) of
                           Some a \<Rightarrow> cached a sh
                         | None \<Rightarrow> IRCON_COMMAND_UNKNOWN)\<rparr>) fs"

text \<open>
  A scan cycle as the server drives it: \<open>rnd_init\<close>, then \<open>rnd_next\<close> twice. The
  two return codes are kept.
\<close>

definition scan_cycle :: "ha_ircon \<Rightarrow> fault + ((int \<times> int) \<times> ha_ircon)" where
  "scan_cycle st =
     (case rnd_next (snd (rnd_init st)) of
        Inl e \<Rightarrow> Inl e
      | Inr (r1, st1) \<Rightarrow>
          (case rnd_next st1 of
             Inl e \<Rightarrow> Inl e
           | Inr (r2, st2) \<Rightarrow> Inr ((r1, r2), st2)))"

fun scan_cycles :: "nat \<Rightarrow> ha_ircon \<Rightarrow> fault + ((int \<times> int) list \<times> ha_ircon)" where
  "scan_cycles 0 st = Inr ([], st)"
| "scan_cycles (Suc n) st =
     (case scan_cycle st of
        Inl e \<Rightarrow> Inl e
      | Inr (r, st') \<Rightarrow>
          (case scan_cycles n st' of
             Inl e \<Rightarrow> Inl e
           | Inr (rs, st'') \<Rightarrow> Inr (r # rs, st'')))"

text \<open>The name of an attribute, and the attribute buffer right after a reset.\<close>

fun attr_name :: "attr \<Rightarrow> string" where
  "attr_name Mode = IRCON_COMMAND_MODE"
| "attr_name Temperature = IRCON_COMMAND_TEMPERATURE"
| "attr_name Power = IRCON_COMMAND_POWER"
| "attr_name Angle = IRCON_COMMAND_ANGLE"

definition sentinel_buf :: "nat \<Rightarrow> char list" where
  "sentinel_buf L = IRCON_COMMAND_UNKNOWN @ replicate (L - 7) NUL"

definition after_reset :: "nat \<Rightarrow> char list \<Rightarrow> char list" where
  "after_reset L dst = sentinel_buf L @ drop L dst"

text \<open>
  Concrete inputs: the storage of a share before its first reset, a table of
  the four recognized columns, a handler that has not been opened, and a
  handler whose share has just been connected and reset.
\<close>

definition fresh_share :: "nat \<Rightarrow> Ircon_share" where
  "fresh_share L =
     \<lparr>socket_opened = False, socket = 0,
      state_mode = replicate L (CHR ''?''), state_temperature = replicate L (CHR ''?''),
      state_power = replicate L (CHR ''?''), state_angle = replicate L (CHR ''?'')\<rparr>"

definition four_columns :: "nat \<Rightarrow> string \<Rightarrow> string \<Rightarrow> string \<Rightarrow> string \<Rightarrow> Field list" where
  "four_columns n m t p a =
     [\<lparr>field_name = IRCON_COMMAND_MODE, field_length = n, cell = m\<rparr>,
      \<lparr>field_name = IRCON_COMMAND_TEMPERATURE, field_length = n, cell = t\<rparr>,
      \<lparr>field_name = IRCON_COMMAND_POWER, field_length = n, cell = p\<rparr>,
      \<lparr>field_name = IRCON_COMMAND_ANGLE, field_length = n, cell = a\<rparr>]"

definition new_handler :: "string \<Rightarrow> Field list \<Rightarrow> ha_ircon" where
  "new_handler name fs =
     \<lparr>share_set = False, share = fresh_share 0, next_is_eof = False, stats_records = 0,
      table_name = name, table = fs, connect_addr = None, link_up = False, sent = []\<rparr>"

definition opened_handler :: "nat \<Rightarrow> string \<Rightarrow> Field list \<Rightarrow> ha_ircon" where
  "opened_handler L name fs =
     \<lparr>share_set = True,
      share = \<lparr>socket_opened = True, socket = 3,
               state_mode = sentinel_buf L, state_temperature = sentinel_buf L,
               state_power = sentinel_buf L, state_angle = sentinel_buf L\<rparr>,
      next_is_eof = False, stats_records = 0,
      table_name = name, table = fs, connect_addr = None, link_up = True, sent = []\<rparr>"

text \<open>The environment of an \<open>open\<close> that gets storage and a socket; \<open>c\<close> is what \<open>connect\<close> returns.\<close>

definition answering :: "nat \<Rightarrow> int \<Rightarrow> open_env" where
  "answering L c = \<lparr>new_share = Some (fresh_share L), socket_ret = 3, connect_ret = c\<rparr>"

text \<open>\<open>open\<close>, then \<open>write_row\<close> of the given row: the state after the write.\<close>

definition open_then_write ::
  "int \<Rightarrow> nat \<Rightarrow> open_env \<Rightarrow> Field list \<Rightarrow> ha_ircon \<Rightarrow> fault + ha_ircon" where
  "open_then_write dport L env row st0 =
     (case ha_ircon_open dport L env st0 of
        Inl e \<Rightarrow> Inl e
      | Inr (rc, st1) \<Rightarrow>
          (case write_row [] (st1\<lparr>table := row\<rparr>) of
             Inl e \<Rightarrow> Inl e
           | Inr (rc', st2) \<Rightarrow> Inr st2))"

section \<open>Facts about the primitives and the loops\<close>

lemma c_str_stop: "NUL \<notin> set s \<Longrightarrow> c_str (s @ NUL # r) = s"
  by (induction s) (auto simp: c_str_def)

lemma c_str_free: "NUL \<notin> set s \<Longrightarrow> c_str s = s"
  by (induction s) (auto simp: c_str_def)

lemma length_c_str: "length (c_str bs) \<le> length bs"
  by (simp add: c_str_def length_takeWhile_le)

lemma length_strncpy_bytes: "length (strncpy_bytes src n) = n"
proof -
  have "length (c_str (take n src)) \<le> n"
    using length_c_str [of "take n src"] by simp
  then show ?thesis by (simp add: strncpy_bytes_def Let_def)
qed

lemma strncpy_bytes_lit:
  assumes "NUL \<notin> set s" "length s < n"
  shows "strncpy_bytes (lit s) n = s @ replicate (n - length s) NUL"
proof -
  have "take n (lit s) = s @ [NUL]" using assms by (simp add: lit_def)
  then show ?thesis using assms by (simp add: strncpy_bytes_def c_str_stop)
qed

lemma strncpy_bytes_whole:
  "NUL \<notin> set v \<Longrightarrow> strncpy_bytes v (length v) = v"
  by (simp add: strncpy_bytes_def c_str_free)

lemma store_attribute_fits:
  assumes "NUL \<notin> set v" "length v < length dst"
  shows "store_attribute dst v = Inr (v @ NUL # drop (Suc (length v)) dst)"
proof -
  have "drop (length v) dst = dst ! length v # drop (Suc (length v)) dst"
    using assms by (simp add: Cons_nth_drop_Suc)
  then have "(v @ drop (length v) dst)[length v := NUL] = v @ NUL # drop (Suc (length v)) dst"
    by (simp add: list_update_length)
  then show ?thesis
    using assms by (simp add: store_attribute_def strncpy_def poke_def strncpy_bytes_whole)
qed

lemma store_attribute_overrun:
  "length dst \<le> length v \<Longrightarrow> store_attribute dst v = Inl BufferOverrun"
  by (simp add: store_attribute_def strncpy_def poke_def length_strncpy_bytes)

lemma NUL_notin_unknown: "NUL \<notin> set IRCON_COMMAND_UNKNOWN"
  by (simp add: IRCON_COMMAND_UNKNOWN_def NUL_def)

lemma strncpy_sentinel:
  assumes "8 \<le> L" "L \<le> length dst"
  shows "strncpy dst (lit IRCON_COMMAND_UNKNOWN) L = Inr (after_reset L dst)"
proof -
  have "length IRCON_COMMAND_UNKNOWN = 7" by (simp add: IRCON_COMMAND_UNKNOWN_def)
  then show ?thesis
    using assms
    by (simp add: strncpy_def after_reset_def sentinel_buf_def strncpy_bytes_lit NUL_notin_unknown)
qed

lemma sentinel_buf_props:
  assumes "8 \<le> L"
  shows "c_str (sentinel_buf L) = IRCON_COMMAND_UNKNOWN" "NUL \<in> set (sentinel_buf L)"
    "length (sentinel_buf L) = L"
proof -
  obtain k where k: "L - 7 = Suc k" using assms by (cases "L - 7") auto
  show "c_str (sentinel_buf L) = IRCON_COMMAND_UNKNOWN"
    by (simp add: sentinel_buf_def k c_str_stop NUL_notin_unknown)
  show "NUL \<in> set (sentinel_buf L)" by (simp add: sentinel_buf_def k)
  show "length (sentinel_buf L) = L"
    using assms by (simp add: sentinel_buf_def IRCON_COMMAND_UNKNOWN_def)
qed

lemma after_reset_props:
  assumes "8 \<le> L"
  shows "c_str (after_reset L dst) = IRCON_COMMAND_UNKNOWN" "NUL \<in> set (after_reset L dst)"
    "L \<le> length dst \<Longrightarrow> length (after_reset L dst) = length dst"
proof -
  obtain k where k: "L - 7 = Suc k" using assms by (cases "L - 7") auto
  show "c_str (after_reset L dst) = IRCON_COMMAND_UNKNOWN"
    by (simp add: after_reset_def sentinel_buf_def k c_str_stop NUL_notin_unknown)
  show "NUL \<in> set (after_reset L dst)"
    using sentinel_buf_props(2) [OF assms] by (simp add: after_reset_def)
  show "length (after_reset L dst) = length dst" if "L \<le> length dst"
    using that sentinel_buf_props(3) [OF assms] by (simp add: after_reset_def)
qed

lemma reset_state_sized:
  assumes "8 \<le> L" "share_sized L sh"
  shows "reset_state L sh =
           Inr (sh\<lparr>state_mode := after_reset L (state_mode sh),
                   state_temperature := after_reset L (state_temperature sh),
                   state_power := after_reset L (state_power sh),
                   state_angle := after_reset L (state_angle sh)\<rparr>)"
  using assms by (simp add: reset_state_def share_sized_def strncpy_sentinel)

lemma NUL_in_attr_buf: "share_terminated sh \<Longrightarrow> NUL \<in> set (attr_buf a sh)"
  by (cases a) (simp_all add: share_terminated_def)

lemma read_cstr_lit: "NUL \<notin> set s \<Longrightarrow> read_cstr (lit s) = Inr s"
  by (simp add: read_cstr_def lit_def c_str_stop)

lemma read_field_terminated:
  assumes "share_terminated sh"
  shows "read_field sh f =
     Inr (f\<lparr>cell := (case read_match (field_name f) (field_length f) of
                        Some a \<Rightarrow> cached a sh | None \<Rightarrow> IRCON_COMMAND_UNKNOWN)\<rparr>)"
proof (cases "read_match (field_name f) (field_length f)")
  case None
  then show ?thesis by (simp add: read_field_def read_cstr_lit NUL_notin_unknown)
next
  case (Some a)
  then show ?thesis
    using NUL_in_attr_buf [OF assms, of a] by (simp add: read_field_def read_cstr_def cached_def)
qed

lemma store_fields_terminated:
  "share_terminated sh \<Longrightarrow> store_fields sh fs = Inr (row_of sh fs)"
  by (induction fs) (simp_all add: row_of_def read_field_terminated)

lemma rnd_next_armed:
  assumes "share_terminated (share st)" "\<not> next_is_eof st"
  shows "rnd_next st = Inr (0, st\<lparr>table := row_of (share st) (table st),
            stats_records := stats_records st + 1, next_is_eof := True\<rparr>)"
  using assms by (simp add: rnd_next_def store_fields_terminated)

lemma rnd_next_exhausted: "next_is_eof st \<Longrightarrow> rnd_next st = Inr (HA_ERR_END_OF_FILE, st)"
  by (simp add: rnd_next_def)

lemma scan_cycle_terminated:
  assumes "share_terminated (share st)"
  shows "scan_cycle st = Inr ((0, HA_ERR_END_OF_FILE),
           st\<lparr>next_is_eof := False\<rparr>\<lparr>table := row_of (share st) (table st),
              stats_records := stats_records st + 1, next_is_eof := True\<rparr>)"
  using assms by (simp add: scan_cycle_def rnd_init_def rnd_next_armed rnd_next_exhausted)

lemma scan_cycles_terminated:
  "share_terminated (share st) \<Longrightarrow>
   \<exists>st'. scan_cycles n st = Inr (replicate n (0, HA_ERR_END_OF_FILE), st') \<and> share st' = share st"
proof (induction n arbitrary: st)
  case 0
  then show ?case by simp
next
  case (Suc n)
  let ?st1 = "st\<lparr>next_is_eof := False\<rparr>\<lparr>table := row_of (share st) (table st),
              stats_records := stats_records st + 1, next_is_eof := True\<rparr>"
  have t: "share_terminated (share ?st1)" using Suc.prems by simp
  from Suc.IH [OF t] obtain st' where
    "scan_cycles n ?st1 = Inr (replicate n (0, HA_ERR_END_OF_FILE), st')" "share st' = share ?st1"
    by blast
  then show ?case
    using Suc.prems by (simp add: scan_cycle_terminated)
qed

lemma write_match_attr_name: "write_match (attr_name a) = Some a"
  by (cases a)
    (simp_all add: write_match_def strncmp_is0_def lit_def IRCON_COMMAND_MODE_def
      IRCON_COMMAND_TEMPERATURE_def IRCON_COMMAND_POWER_def IRCON_COMMAND_ANGLE_def)

lemma set_attr_buf_same: "set_attr_buf a (attr_buf a sh) sh = sh"
  by (cases a) simp_all

lemma colon_index_found:
  "CHR '':'' \<notin> set h \<Longrightarrow> colon_index (h @ CHR '':'' # r) i = Some (i + length h)"
  by (induction h arbitrary: i) auto

lemma colon_index_none: "CHR '':'' \<notin> set bs \<Longrightarrow> colon_index bs i = None"
  by (induction bs arbitrary: i) auto

lemma NUL_plain: "\<not> isspace NUL" "\<not> isdigit NUL" "NUL \<noteq> CHR ''-''" "NUL \<noteq> CHR ''+''"
  "NUL \<noteq> CHR '':''" "CHR '':'' \<noteq> NUL"
  by (simp_all add: isspace_def isdigit_def NUL_def)

lemma skip_space_stop:
  "NUL \<notin> set s \<Longrightarrow> skip_space (s @ NUL # zs) = Inr (dropWhile isspace s @ NUL # zs)"
  by (induction s) (auto simp: NUL_plain)

lemma digits_stop: "NUL \<notin> set s \<Longrightarrow> digits (s @ NUL # zs) acc = digits (s @ [NUL]) acc"
  by (induction s arbitrary: acc) (auto simp: NUL_plain)

lemma atoi_stop:
  assumes "NUL \<notin> set s"
  shows "atoi (s @ NUL # zs) = atoi (lit s)"
proof -
  have n: "NUL \<notin> set (dropWhile isspace s)"
    using assms set_dropWhileD by fastforce
  show ?thesis
  proof (cases "dropWhile isspace s")
    case Nil
    then have "skip_space (s @ NUL # zs) = Inr (NUL # zs)" "skip_space (s @ [NUL]) = Inr [NUL]"
      using skip_space_stop [OF assms] by simp_all
    then show ?thesis
      by (simp add: atoi_def lit_def NUL_plain)
  next
    case (Cons c cs)
    then have m: "NUL \<notin> set cs" "NUL \<notin> set (c # cs)" using n by auto
    have "skip_space (s @ NUL # zs) = Inr (c # cs @ NUL # zs)"
      "skip_space (s @ [NUL]) = Inr (c # cs @ [NUL])"
      using skip_space_stop [OF assms] Cons by simp_all
    then show ?thesis
      using digits_stop [OF m(1), of zs 0] digits_stop [OF m(2), of zs 0]
      by (simp add: atoi_def lit_def)
  qed
qed

lemma name_buffer:
  assumes "NUL \<notin> set name" "length name < 32"
  shows "strncpy_bytes (lit name) 32 = name @ NUL # replicate (31 - length name) NUL"
proof -
  have "replicate (32 - length name) NUL = NUL # replicate (31 - length name) NUL"
    using assms by (cases "32 - length name") (auto simp: Suc_diff_le)
  then show ?thesis using assms by (simp add: strncpy_bytes_lit)
qed

lemma host_port_without_colon:
  assumes "CHR '':'' \<notin> set name" "NUL \<notin> set name" "length name < 32"
  shows "host_port dport name = Inr (name, dport)"
proof -
  have "colon_index (name @ NUL # replicate (31 - length name) NUL) 0 = None"
    using assms by (intro colon_index_none) (auto simp: NUL_plain)
  then show ?thesis
    using assms by (simp add: host_port_def name_buffer read_cstr_def c_str_stop)
qed

lemma host_port_with_colon:
  assumes "CHR '':'' \<notin> set h" "NUL \<notin> set h" "NUL \<notin> set seg" "length h + length seg < 31"
  shows "host_port dport (h @ '':'' @ seg) =
           (case atoi (lit seg) of
              Inl e \<Rightarrow> Inl e
            | Inr p \<Rightarrow> Inr (h, if p = 0 then dport else p))"
proof -
  let ?k = "31 - length (h @ '':'' @ seg)"
  let ?buf = "h @ CHR '':'' # seg @ NUL # replicate ?k NUL"
  have nn: "NUL \<notin> set (h @ '':'' @ seg)" using assms by (simp add: NUL_plain)
  have b: "strncpy_bytes (lit (h @ '':'' @ seg)) 32 = ?buf"
    using name_buffer [OF nn] assms by simp
  have c: "colon_index ?buf 0 = Some (length h)"
    using colon_index_found [OF assms(1), of _ 0] by simp
  have d: "drop (Suc (length h)) ?buf = seg @ NUL # replicate ?k NUL" by simp
  have u: "?buf[length h := NUL] = h @ NUL # seg @ NUL # replicate ?k NUL"
    by (simp add: list_update_length)
  have r: "read_cstr (h @ NUL # seg @ NUL # replicate ?k NUL) = Inr h"
    using assms by (simp add: read_cstr_def c_str_stop)
  have i: "length h < 31" using assms by simp
  show ?thesis
    unfolding host_port_def b Let_def c option.case d u
    using i r atoi_stop [OF assms(3)] by (simp split: sum.splits)
qed

lemma get_share_set: "get_share env st0 = Some st \<Longrightarrow> share_set st"
  by (auto simp: get_share_def split: if_splits option.splits)

lemma open_unconnected:
  assumes "get_share env st0 = Some st" and "\<not> socket_opened (share st)"
    and "0 \<le> socket_ret env" and "host_port dport (table_name st) = Inr (host, port)"
    and "8 \<le> L" and "share_sized L (share st)"
  shows "ha_ircon_open dport L env st0 =
           Inr (0, st\<lparr>share := (share st)\<lparr>socket_opened := True, socket := socket_ret env,
                        state_mode := after_reset L (state_mode (share st)),
                        state_temperature := after_reset L (state_temperature (share st)),
                        state_power := after_reset L (state_power (share st)),
                        state_angle := after_reset L (state_angle (share st))\<rparr>,
                      connect_addr := Some \<lparr>sin_host = host, sin_port = word_of_int port\<rparr>,
                      link_up := (connect_ret env = 0)\<rparr>)"
proof -
  have "share_sized L ((share st)\<lparr>socket := socket_ret env, socket_opened := True\<rparr>)"
    using assms(6) by (simp add: share_sized_def)
  from reset_state_sized [OF assms(5) this] show ?thesis
    using assms(1-4) by (simp add: ha_ircon_open_def Let_def)
qed

lemma open_socket_failure:
  assumes "get_share env st0 = Some st" and "\<not> socket_opened (share st)"
    and "socket_ret env < 0"
  shows "ha_ircon_open dport L env st0 =
           Inr (- 1, st\<lparr>share := (share st)\<lparr>socket := socket_ret env\<rparr>\<rparr>)"
  using assms by (simp add: ha_ircon_open_def Let_def)

lemma open_connected:
  "share_set st \<Longrightarrow> socket_opened (share st) \<Longrightarrow> ha_ircon_open dport L env st = Inr (0, st)"
  by (simp add: ha_ircon_open_def get_share_def)

lemma write_match_names:
  "write_match IRCON_COMMAND_MODE = Some Mode"
  "write_match IRCON_COMMAND_TEMPERATURE = Some Temperature"
  "write_match IRCON_COMMAND_POWER = Some Power"
  "write_match IRCON_COMMAND_ANGLE = Some Angle"
  using write_match_attr_name [of Mode] write_match_attr_name [of Temperature]
    write_match_attr_name [of Power] write_match_attr_name [of Angle]
  by simp_all

lemma read_match_names:
  assumes "0 < n"
  shows "read_match IRCON_COMMAND_MODE n = Some Mode"
    "read_match IRCON_COMMAND_TEMPERATURE n = Some Temperature"
    "read_match IRCON_COMMAND_POWER n = Some Power"
    "read_match IRCON_COMMAND_ANGLE n = Some Angle"
proof -
  obtain k where k: "n = Suc k" using assms by (cases n) auto
  show "read_match IRCON_COMMAND_MODE n = Some Mode"
    by (simp add: read_match_def strncmp_is0_def)
  show "read_match IRCON_COMMAND_TEMPERATURE n = Some Temperature"
    by (simp add: k read_match_def strncmp_is0_def lit_def IRCON_COMMAND_MODE_def
        IRCON_COMMAND_TEMPERATURE_def)
  show "read_match IRCON_COMMAND_POWER n = Some Power"
    by (simp add: k read_match_def strncmp_is0_def lit_def IRCON_COMMAND_MODE_def
        IRCON_COMMAND_TEMPERATURE_def IRCON_COMMAND_POWER_def)
  show "read_match IRCON_COMMAND_ANGLE n = Some Angle"
    by (simp add: k read_match_def strncmp_is0_def lit_def IRCON_COMMAND_MODE_def
        IRCON_COMMAND_TEMPERATURE_def IRCON_COMMAND_POWER_def IRCON_COMMAND_ANGLE_def)
qed

lemma write_field_empty:
  assumes "write_match (field_name f) = Some a" and "cell f = []"
    and "NUL \<in> set (attr_buf a (share st))"
  shows "write_field f st =
           Inr (st\<lparr>sent := sent st @ field_name f @ '':'' @ cached a (share st) @ '',''\<rparr>)"
  using assms by (simp add: write_field_def read_cstr_def cached_def set_attr_buf_same)

lemma write_field_store:
  assumes "write_match (field_name f) = Some a" and "cell f \<noteq> []" and "NUL \<notin> set (cell f)"
    and "length (cell f) < length (attr_buf a (share st))"
  shows "write_field f st =
           Inr (st\<lparr>share := set_attr_buf a
                              (cell f @ NUL # drop (Suc (length (cell f))) (attr_buf a (share st)))
                              (share st),
                   sent := sent st @ field_name f @ '':'' @ cell f @ '',''\<rparr>)"
  using assms by (simp add: write_field_def store_attribute_fits read_cstr_def c_str_stop)

lemma write_mode_only:
  assumes "share_terminated (share s)" and "m \<noteq> []" and "NUL \<notin> set m"
    and "length m < length (state_mode (share s))"
  shows "write_fields (four_columns n m [] [] []) s =
           Inr (s\<lparr>share := (share s)\<lparr>state_mode :=
                               m @ NUL # drop (Suc (length m)) (state_mode (share s))\<rparr>,
                  sent := sent s @ IRCON_COMMAND_MODE @ '':'' @ m @ '','' @
                          IRCON_COMMAND_TEMPERATURE @ '':'' @ cached Temperature (share s) @ '','' @
                          IRCON_COMMAND_POWER @ '':'' @ cached Power (share s) @ '','' @
                          IRCON_COMMAND_ANGLE @ '':'' @ cached Angle (share s) @ '',''\<rparr>)"
  using assms
  by (simp add: four_columns_def write_field_store write_field_empty write_match_names
      share_terminated_def cached_def)

lemma row_of_four_columns:
  "0 < n \<Longrightarrow> map cell (row_of sh (four_columns n m t p a)) =
     [cached Mode sh, cached Temperature sh, cached Power sh, cached Angle sh]"
  by (simp add: row_of_def four_columns_def read_match_names)

lemma get_share_keeps:
  "get_share env st0 = Some st \<Longrightarrow> sent st = sent st0 \<and> table_name st = table_name st0"
  by (auto simp: get_share_def split: if_splits option.splits)

lemma host_port_host_9000: "host_port dport ''host:9000'' = Inr (''host'', 9000)"
proof -
  have a: "atoi (lit ''9000'') = Inr 9000" by code_simp
  have "host_port dport (''host'' @ '':'' @ ''9000'') =
          (case atoi (lit ''9000'') of Inl e \<Rightarrow> Inl e
           | Inr p \<Rightarrow> Inr (''host'', if p = 0 then dport else p))"
    by (rule host_port_with_colon) (simp_all add: NUL_def)
  then show ?thesis by (simp add: a)
qed

section \<open>Results\<close>

text \<open>
  C1, amended. A handler on the table \<open>host:9000\<close> with the four recognized
  columns, each of a declared length above 0: \<open>open\<close> connects to host \<open>host\<close>,
  port 9000; writing the row with \<open>mode = heat\<close> and three empty values sends
  one token for each of the four columns, the empty ones with their cached
  sentinel, then a newline; \<open>rnd_init\<close> and one \<open>rnd_next\<close> give the row
  \<open>heat\<close>, \<open>unknown\<close>, \<open>unknown\<close>, \<open>unknown\<close>.
\<close>

theorem open_write_scan_end_to_end:
  assumes "get_share env st0 = Some st" and "\<not> socket_opened (share st)"
    and "0 \<le> socket_ret env" and "table_name st0 = ''host:9000''"
    and "8 \<le> L" and "share_sized L (share st)" and "0 < n"
  shows "\<exists>st1 st2 st3.
           ha_ircon_open dport L env st0 = Inr (0, st1) \<and>
           connect_addr st1 = Some \<lparr>sin_host = ''host'', sin_port = 9000\<rparr> \<and>
           write_row buf (st1\<lparr>table := four_columns n ''heat'' [] [] []\<rparr>) = Inr (0, st2) \<and>
           sent st2 = sent st0 @
             ''mode:heat,temperature:unknown,power:unknown,angle:unknown,'' @ [CHR 0x0A] \<and>
           rnd_next (snd (rnd_init st2)) = Inr (0, st3) \<and>
           map cell (table st3) = [''heat'', ''unknown'', ''unknown'', ''unknown'']"
proof -
  define sh1 where "sh1 = (share st)\<lparr>socket_opened := True, socket := socket_ret env,
      state_mode := after_reset L (state_mode (share st)),
      state_temperature := after_reset L (state_temperature (share st)),
      state_power := after_reset L (state_power (share st)),
      state_angle := after_reset L (state_angle (share st))\<rparr>"
  define st1 where "st1 = st\<lparr>share := sh1,
      connect_addr := Some \<lparr>sin_host = ''host'', sin_port = word_of_int 9000\<rparr>,
      link_up := (connect_ret env = 0)\<rparr>"
  define s where "s = st1\<lparr>table := four_columns n ''heat'' [] [] []\<rparr>"
  define sh2 where "sh2 = sh1\<lparr>state_mode :=
      ''heat'' @ NUL #
      drop (Suc (length ''heat'')) (after_reset L (state_mode (share st)))\<rparr>"
  define st2 where "st2 = s\<lparr>share := sh2,
      sent := sent st0 @ ''mode:heat,temperature:unknown,power:unknown,angle:unknown,'' @
              [CHR 0x0A]\<rparr>"
  define st3 where "st3 = st2\<lparr>table := row_of (share st2) (table st2),
      stats_records := stats_records st2 + 1, next_is_eof := True\<rparr>"
  note sb = after_reset_props(1,2) [OF assms(5)]
  have ln: "length (after_reset L (state_mode (share st))) = length (state_mode (share st))"
    "L \<le> length (state_mode (share st))"
    using assms(6) after_reset_props(3) [OF assms(5)] by (simp_all add: share_sized_def)
  have keep: "sent st = sent st0" "table_name st = ''host:9000''"
    using get_share_keeps [OF assms(1)] assms(4) by simp_all
  have o: "ha_ircon_open dport L env st0 = Inr (0, st1)"
    unfolding st1_def sh1_def
    by (rule open_unconnected [OF assms(1) assms(2) assms(3) _ assms(5) assms(6)])
      (simp add: keep host_port_host_9000)
  have ca: "connect_addr st1 = Some \<lparr>sin_host = ''host'', sin_port = 9000\<rparr>"
    by (simp add: st1_def)
  have t1: "share_terminated (share s)"
    by (simp add: s_def st1_def sh1_def share_terminated_def sb)
  have c1: "cached Temperature (share s) = ''unknown''" "cached Power (share s) = ''unknown''"
    "cached Angle (share s) = ''unknown''"
    by (simp_all add: s_def st1_def sh1_def cached_def sb IRCON_COMMAND_UNKNOWN_def [symmetric])
  have l1: "length ''heat'' < length (state_mode (share s))"
    using assms(5) ln by (simp add: s_def st1_def sh1_def)
  have "write_fields (four_columns n ''heat'' [] [] []) s =
          Inr (s\<lparr>share := (share s)\<lparr>state_mode :=
                    ''heat'' @ NUL # drop (Suc (length ''heat'')) (state_mode (share s))\<rparr>,
                 sent := sent s @ IRCON_COMMAND_MODE @ '':'' @ ''heat'' @ '','' @
                    IRCON_COMMAND_TEMPERATURE @ '':'' @ cached Temperature (share s) @ '','' @
                    IRCON_COMMAND_POWER @ '':'' @ cached Power (share s) @ '','' @
                    IRCON_COMMAND_ANGLE @ '':'' @ cached Angle (share s) @ '',''\<rparr>)"
    by (rule write_mode_only [OF t1 _ _ l1]) (simp_all add: NUL_def)
  then have w: "write_row buf s = Inr (0, st2)"
    unfolding c1
    by (simp add: write_row_def write_update_row_def st2_def sh2_def s_def st1_def sh1_def keep
        IRCON_COMMAND_MODE_def IRCON_COMMAND_TEMPERATURE_def IRCON_COMMAND_POWER_def
        IRCON_COMMAND_ANGLE_def)
  have se: "sent st2 = sent st0 @
      ''mode:heat,temperature:unknown,power:unknown,angle:unknown,'' @ [CHR 0x0A]"
    by (simp add: st2_def)
  have t2: "share_terminated (share st2)"
    by (simp add: st2_def sh2_def sh1_def share_terminated_def sb)
  have "rnd_next (st2\<lparr>next_is_eof := False\<rparr>) = Inr (0, st3)"
    using t2 by (simp add: rnd_next_armed st3_def)
  then have r: "rnd_next (snd (rnd_init st2)) = Inr (0, st3)"
    by (simp add: rnd_init_def)
  have "NUL \<notin> set ''heat''" by (simp add: NUL_def)
  then have h: "c_str (''heat'' @ NUL # r) = ''heat''" for r
    by (rule c_str_stop)
  have c2: "cached Mode (share st2) = ''heat''" "cached Temperature (share st2) = ''unknown''"
    "cached Power (share st2) = ''unknown''" "cached Angle (share st2) = ''unknown''"
    using h by (simp_all add: st2_def sh2_def sh1_def cached_def sb
        IRCON_COMMAND_UNKNOWN_def [symmetric])
  have "table st3 = row_of (share st2) (four_columns n ''heat'' [] [] [])"
    by (simp add: st3_def st2_def s_def)
  then have row: "map cell (table st3) = [''heat'', ''unknown'', ''unknown'', ''unknown'']"
    using assms(7) by (simp add: row_of_four_columns c2)
  have w': "write_row buf (st1\<lparr>table := four_columns n ''heat'' [] [] []\<rparr>) = Inr (0, st2)"
    using w by (simp only: s_def)
  from o ca w' se r row show ?thesis
    by (intro exI conjI)
qed

theorem open_write_scan_end_to_end_witness:
  "get_share (answering 8 0) (new_handler ''host:9000'' []) =
     Some ((new_handler ''host:9000'' [])\<lparr>share_set := True, share := fresh_share 8\<rparr>) \<and>
   \<not> socket_opened (share ((new_handler ''host:9000'' [])
                            \<lparr>share_set := True, share := fresh_share 8\<rparr>)) \<and>
   0 \<le> socket_ret (answering 8 0) \<and>
   table_name (new_handler ''host:9000'' []) = ''host:9000'' \<and>
   (8::nat) \<le> 8 \<and>
   share_sized 8 (share ((new_handler ''host:9000'' [])
                            \<lparr>share_set := True, share := fresh_share 8\<rparr>)) \<and>
   (0::nat) < 8 \<and>
   (\<exists>st1 st2 st3.
       ha_ircon_open 4000 8 (answering 8 0) (new_handler ''host:9000'' []) = Inr (0, st1) \<and>
       connect_addr st1 = Some \<lparr>sin_host = ''host'', sin_port = 9000\<rparr> \<and>
       write_row [] (st1\<lparr>table := four_columns 8 ''heat'' [] [] []\<rparr>) = Inr (0, st2) \<and>
       sent st2 = sent (new_handler ''host:9000'' []) @
         ''mode:heat,temperature:unknown,power:unknown,angle:unknown,'' @ [CHR 0x0A] \<and>
       rnd_next (snd (rnd_init st2)) = Inr (0, st3) \<and>
       map cell (table st3) = [''heat'', ''unknown'', ''unknown'', ''unknown''])"
proof -
  let ?init = "new_handler ''host:9000'' []"
  let ?st = "?init\<lparr>share_set := True, share := fresh_share 8\<rparr>"
  have h1: "get_share (answering 8 0) ?init = Some ?st"
    by (simp add: get_share_def answering_def new_handler_def fresh_share_def)
  have h2: "\<not> socket_opened (share ?st)" by (simp add: fresh_share_def)
  have h3: "0 \<le> socket_ret (answering 8 0)" by (simp add: answering_def)
  have h4: "table_name ?init = ''host:9000''" by (simp add: new_handler_def)
  have h5: "(8::nat) \<le> 8" by simp
  have h6: "share_sized 8 (share ?st)" by (simp add: share_sized_def fresh_share_def)
  have h7: "(0::nat) < 8" by simp
  from h1 h2 h3 h4 h5 h6 h7 open_write_scan_end_to_end [OF h1 h2 h3 h4 h5 h6 h7, of 4000 "[]"]
  show ?thesis by (intro conjI)
qed

text \<open>
  C1 as stated fails: with 8-byte attribute buffers and a default port of 4000,
  the bytes sent for that write are not \<open>mode:heat,\<close> and a newline.
\<close>

theorem write_sends_every_recognized_column:
  "map_sum id sent
     (open_then_write 4000 8 (answering 8 0) (four_columns 8 ''heat'' [] [] [])
        (new_handler ''host:9000'' [])) =
     Inr (''mode:heat,temperature:unknown,power:unknown,angle:unknown,'' @ [CHR 0x0A]) \<and>
   map_sum id sent
     (open_then_write 4000 8 (answering 8 0) (four_columns 8 ''heat'' [] [] [])
        (new_handler ''host:9000'' [])) \<noteq>
     Inr (''mode:heat,'' @ [CHR 0x0A])"
  by code_simp

text \<open>
  C2, as the code behaves. When the socket is created and \<open>connect\<close> fails,
  \<open>open\<close> returns 0 and marks the share as connected although the link is
  down, and the next \<open>open\<close> on that share returns 0 at once, without another
  attempt.
\<close>

theorem connect_failure_not_reported:
  assumes "connect_ret env \<noteq> 0" and "0 \<le> socket_ret env"
    and "get_share env st0 = Some st" and "\<not> socket_opened (share st)"
    and "host_port dport (table_name st) = Inr (host, port)"
    and "8 \<le> L" and "share_sized L (share st)"
  shows "\<exists>st'. ha_ircon_open dport L env st0 = Inr (0, st') \<and>
           socket_opened (share st') \<and> \<not> link_up st' \<and>
           ha_ircon_open dport L env' st' = Inr (0, st')"
proof -
  let ?st' = "st\<lparr>share := (share st)\<lparr>socket_opened := True, socket := socket_ret env,
                        state_mode := after_reset L (state_mode (share st)),
                        state_temperature := after_reset L (state_temperature (share st)),
                        state_power := after_reset L (state_power (share st)),
                        state_angle := after_reset L (state_angle (share st))\<rparr>,
                      connect_addr := Some \<lparr>sin_host = host, sin_port = word_of_int port\<rparr>,
                      link_up := (connect_ret env = 0)\<rparr>"
  have o: "ha_ircon_open dport L env st0 = Inr (0, ?st')"
    by (rule open_unconnected [OF assms(3) assms(4) assms(2) assms(5) assms(6) assms(7)])
  have s: "share_set ?st'" "socket_opened (share ?st')" "\<not> link_up ?st'"
    using get_share_set [OF assms(3)] assms(1) by simp_all
  from o s open_connected [OF s(1) s(2), of dport L env'] show ?thesis
    by (intro exI conjI)
qed

theorem connect_failure_not_reported_witness:
  "connect_ret (answering 8 (- 1)) \<noteq> 0 \<and>
   0 \<le> socket_ret (answering 8 (- 1)) \<and>
   get_share (answering 8 (- 1)) (new_handler ''host:9000'' []) =
     Some ((new_handler ''host:9000'' [])\<lparr>share_set := True, share := fresh_share 8\<rparr>) \<and>
   \<not> socket_opened (share ((new_handler ''host:9000'' [])
                            \<lparr>share_set := True, share := fresh_share 8\<rparr>)) \<and>
   host_port 4000 (table_name ((new_handler ''host:9000'' [])
                            \<lparr>share_set := True, share := fresh_share 8\<rparr>)) =
     Inr (''host'', 9000) \<and>
   (8::nat) \<le> 8 \<and>
   share_sized 8 (share ((new_handler ''host:9000'' [])
                            \<lparr>share_set := True, share := fresh_share 8\<rparr>)) \<and>
   (\<exists>st'. ha_ircon_open 4000 8 (answering 8 (- 1)) (new_handler ''host:9000'' []) =
             Inr (0, st') \<and>
          socket_opened (share st') \<and> \<not> link_up st' \<and>
          ha_ircon_open 4000 8 (answering 8 0) st' = Inr (0, st'))"
proof -
  let ?init = "new_handler ''host:9000'' []"
  let ?st = "?init\<lparr>share_set := True, share := fresh_share 8\<rparr>"
  let ?env = "answering 8 (- 1)"
  have h1: "connect_ret ?env \<noteq> 0" by (simp add: answering_def)
  have h2: "0 \<le> socket_ret ?env" by (simp add: answering_def)
  have h3: "get_share ?env ?init = Some ?st"
    by (simp add: get_share_def answering_def new_handler_def fresh_share_def)
  have h4: "\<not> socket_opened (share ?st)" by (simp add: fresh_share_def)
  have h5: "host_port 4000 (table_name ?st) = Inr (''host'', 9000)"
    by (simp add: new_handler_def host_port_host_9000)
  have h6: "(8::nat) \<le> 8" by simp
  have h7: "share_sized 8 (share ?st)" by (simp add: share_sized_def fresh_share_def)
  from h1 h2 h3 h4 h5 h6 h7
    connect_failure_not_reported [OF h1 h2 h3 h4 h5 h6 h7, of "answering 8 0"]
  show ?thesis by (intro conjI)
qed

text \<open>
  C3, as the code behaves. Names that are not one of the four are matched: on
  write every prefix of an attribute name, the empty name included; on read
  every name that agrees with an attribute name up to the column's declared
  length. A write of the column \<open>mod\<close> stores its value as the cached mode and
  sends a token for it.
\<close>

theorem short_names_are_matched:
  "write_match ''mod'' = Some Mode \<and> write_match ''t'' = Some Temperature \<and>
   write_match [] = Some Mode \<and>
   read_match ''model'' 4 = Some Mode \<and> read_match ''temp'' 4 = Some Temperature \<and>
   read_match ''power'' 0 = Some Mode \<and>
   write_update_row ((opened_handler 8 ''host'' [])
       \<lparr>table := [\<lparr>field_name = ''mod'', field_length = 8, cell = ''x''\<rparr>]\<rparr>) =
     Inr (0, (opened_handler 8 ''host'' [])
       \<lparr>table := [\<lparr>field_name = ''mod'', field_length = 8, cell = ''x''\<rparr>],
        share := (share (opened_handler 8 ''host'' []))
                   \<lparr>state_mode := ''x'' @ [NUL] @ ''known'' @ [NUL]\<rparr>,
        sent := ''mod:x,'' @ [CHR 0x0A]\<rparr>) \<and>
   cached Mode ((share (opened_handler 8 ''host'' []))
                   \<lparr>state_mode := ''x'' @ [NUL] @ ''known'' @ [NUL]\<rparr>) = ''x''"
  by code_simp

text \<open>
  C4, as the code behaves. A non-empty value at least as long as the attribute
  buffer is not cut to the buffer: the copy is bounded by the value's own
  length, and the store runs past the end of the buffer.
\<close>

theorem long_value_overruns_buffer:
  assumes "write_match (field_name f) = Some a" and "cell f \<noteq> []"
    and "length (attr_buf a (share st)) \<le> length (cell f)"
  shows "write_field f st = Inl BufferOverrun"
  using assms by (simp add: write_field_def store_attribute_overrun)

theorem long_value_overruns_buffer_witness:
  "write_match (field_name \<lparr>field_name = ''mode'', field_length = 8, cell = ''overlong''\<rparr>) = Some Mode \<and>
   cell \<lparr>field_name = ''mode'', field_length = 8, cell = ''overlong''\<rparr> \<noteq> [] \<and>
   length (attr_buf Mode (share (opened_handler 8 ''host'' []))) \<le>
     length (cell \<lparr>field_name = ''mode'', field_length = 8, cell = ''overlong''\<rparr>) \<and>
   write_field \<lparr>field_name = ''mode'', field_length = 8, cell = ''overlong''\<rparr>
     (opened_handler 8 ''host'' []) = Inl BufferOverrun"
proof -
  let ?f = "\<lparr>field_name = ''mode'', field_length = 8, cell = ''overlong''\<rparr>"
  let ?st = "opened_handler 8 ''host'' []"
  have h1: "write_match (field_name ?f) = Some Mode"
    using write_match_attr_name [of Mode] by (simp add: IRCON_COMMAND_MODE_def)
  have h2: "cell ?f \<noteq> []" by simp
  have h3: "length (attr_buf Mode (share ?st)) \<le> length (cell ?f)"
    by (simp add: opened_handler_def sentinel_buf_props)
  show ?thesis
    using h1 h2 h3 long_value_overruns_buffer [OF h1 h2 h3] by blast
qed

text \<open>
  C5. A column named exactly as an attribute and holding an empty value: the
  turn of the loop leaves the whole share as it was, and appends to the bytes
  sent the name, a colon, the cached value as it was before, and a comma. As a
  one-column row the command is that token and a newline.
\<close>

theorem empty_value_keeps_cache_and_resends:
  assumes "field_name f = attr_name a" and "cell f = []"
    and "NUL \<in> set (attr_buf a (share st))"
  shows "write_field f st =
           Inr (st\<lparr>sent := sent st @ attr_name a @ '':'' @ cached a (share st) @ '',''\<rparr>) \<and>
         write_update_row (st\<lparr>table := [f]\<rparr>) =
           Inr (0, st\<lparr>table := [f],
                      sent := sent st @ attr_name a @ '':'' @ cached a (share st) @ '','' @
                              [CHR 0x0A]\<rparr>)"
proof -
  have "write_field f st' =
      Inr (st'\<lparr>sent := sent st' @ attr_name a @ '':'' @ cached a (share st') @ '',''\<rparr>)"
    if "share st' = share st" for st' :: ha_ircon
    using assms that
    by (simp add: write_field_def write_match_attr_name read_cstr_def cached_def set_attr_buf_same)
  from this [of st] this [of "st\<lparr>table := [f]\<rparr>"] show ?thesis
    by (simp add: write_update_row_def)
qed

theorem empty_value_keeps_cache_and_resends_witness:
  "field_name \<lparr>field_name = ''power'', field_length = 8, cell = []\<rparr> = attr_name Power \<and>
   cell \<lparr>field_name = ''power'', field_length = 8, cell = []\<rparr> = [] \<and>
   NUL \<in> set (attr_buf Power (share (opened_handler 8 ''host'' []))) \<and>
   write_field \<lparr>field_name = ''power'', field_length = 8, cell = []\<rparr>
       (opened_handler 8 ''host'' []) =
     Inr ((opened_handler 8 ''host'' [])\<lparr>sent := ''power:unknown,''\<rparr>)"
proof -
  let ?f = "\<lparr>field_name = ''power'', field_length = 8, cell = []\<rparr>"
  let ?st = "opened_handler 8 ''host'' []"
  have h1: "field_name ?f = attr_name Power" by (simp add: IRCON_COMMAND_POWER_def)
  have h2: "cell ?f = []" by simp
  have h3: "NUL \<in> set (attr_buf Power (share ?st))"
    by (simp add: opened_handler_def sentinel_buf_props)
  have v: "cached Power (share ?st) = ''unknown''"
    by (simp add: opened_handler_def cached_def sentinel_buf_props IRCON_COMMAND_UNKNOWN_def [symmetric])
  have s: "sent ?st = []" by (simp add: opened_handler_def)
  show ?thesis
    using h1 h2 h3 empty_value_keeps_cache_and_resends [OF h1 h2 h3] v s
    by (simp add: IRCON_COMMAND_POWER_def)
qed

text \<open>
  C6. Whatever the four buffers held, \<open>delete_row\<close> leaves the sentinel in all
  four cached attributes and hands exactly the eight bytes \<open>mode:-,\<close> and
  newline to \<open>send\<close>, nothing per attribute. The buffers hold \<open>L\<close> bytes or
  more, and \<open>L\<close> leaves room for the sentinel and its terminator.
\<close>

theorem delete_row_resets_and_sends:
  assumes "8 \<le> L" and "share_sized L (share st)"
  shows "\<exists>st'. delete_row L st = Inr (0, st') \<and>
           cached Mode (share st') = ''unknown'' \<and>
           cached Temperature (share st') = ''unknown'' \<and>
           cached Power (share st') = ''unknown'' \<and>
           cached Angle (share st') = ''unknown'' \<and>
           sent st' = sent st @ ''mode:-,'' @ [CHR 0x0A] \<and>
           length (''mode:-,'' @ [CHR 0x0A]) = 8"
  using assms
  by (simp add: delete_row_def reset_state_sized cached_def after_reset_props
      IRCON_COMMAND_UNKNOWN_def [symmetric])

theorem delete_row_resets_and_sends_witness:
  "(8::nat) \<le> 8 \<and>
   share_sized 8 (share (opened_handler 8 ''host'' [])) \<and>
   (\<exists>st'. delete_row 8 (opened_handler 8 ''host'' []) = Inr (0, st') \<and>
           cached Mode (share st') = ''unknown'' \<and>
           cached Temperature (share st') = ''unknown'' \<and>
           cached Power (share st') = ''unknown'' \<and>
           cached Angle (share st') = ''unknown'' \<and>
           sent st' = sent (opened_handler 8 ''host'' []) @ ''mode:-,'' @ [CHR 0x0A] \<and>
           length (''mode:-,'' @ [CHR 0x0A]) = 8)"
proof -
  have h1: "(8::nat) \<le> 8" by simp
  have h2: "share_sized 8 (share (opened_handler 8 ''host'' []))"
    by (simp add: opened_handler_def share_sized_def sentinel_buf_props)
  show ?thesis
    using h1 h2 delete_row_resets_and_sends [OF h1 h2] by blast
qed

text \<open>
  C7. In any session whose cached values are terminated strings, and for any
  number \<open>n\<close> of scan cycles: after \<open>rnd_init\<close> the first \<open>rnd_next\<close> returns
  success with the row built from the cache, the next \<open>rnd_next\<close> returns the
  end-of-file code and changes nothing, and every one of \<open>n\<close> cycles in a row
  gives exactly these two codes, the share staying as it was.
\<close>

theorem scan_yields_one_row_per_init:
  assumes "share_terminated (share st)"
  shows "(\<exists>st1. rnd_next (snd (rnd_init st)) = Inr (0, st1) \<and>
                table st1 = row_of (share st) (table st) \<and>
                rnd_next st1 = Inr (HA_ERR_END_OF_FILE, st1)) \<and>
         (\<exists>st'. scan_cycles n st = Inr (replicate n (0, HA_ERR_END_OF_FILE), st') \<and>
                share st' = share st) \<and>
         HA_ERR_END_OF_FILE \<noteq> 0"
proof -
  let ?st1 = "st\<lparr>next_is_eof := False\<rparr>\<lparr>table := row_of (share st) (table st),
              stats_records := stats_records st + 1, next_is_eof := True\<rparr>"
  have a: "rnd_next (snd (rnd_init st)) = Inr (0, ?st1)"
    using assms by (simp add: rnd_init_def rnd_next_armed)
  have b: "rnd_next ?st1 = Inr (HA_ERR_END_OF_FILE, ?st1)"
    by (simp add: rnd_next_exhausted)
  have c: "table ?st1 = row_of (share st) (table st)" by simp
  from a b c have "\<exists>st1. rnd_next (snd (rnd_init st)) = Inr (0, st1) \<and>
                table st1 = row_of (share st) (table st) \<and>
                rnd_next st1 = Inr (HA_ERR_END_OF_FILE, st1)" by blast
  then show ?thesis
    using scan_cycles_terminated [OF assms, of n] by (simp add: HA_ERR_END_OF_FILE_def)
qed

theorem scan_yields_one_row_per_init_witness:
  "share_terminated (share (opened_handler 8 ''host'' (four_columns 8 [] [] [] []))) \<and>
   (\<exists>st1. rnd_next (snd (rnd_init (opened_handler 8 ''host'' (four_columns 8 [] [] [] [])))) =
             Inr (0, st1) \<and>
          table st1 = row_of (share (opened_handler 8 ''host'' (four_columns 8 [] [] [] [])))
                        (table (opened_handler 8 ''host'' (four_columns 8 [] [] [] []))) \<and>
          rnd_next st1 = Inr (HA_ERR_END_OF_FILE, st1)) \<and>
   (\<exists>st'. scan_cycles 2 (opened_handler 8 ''host'' (four_columns 8 [] [] [] [])) =
             Inr (replicate 2 (0, HA_ERR_END_OF_FILE), st') \<and>
          share st' = share (opened_handler 8 ''host'' (four_columns 8 [] [] [] []))) \<and>
   HA_ERR_END_OF_FILE \<noteq> 0"
proof -
  have h: "share_terminated (share (opened_handler 8 ''host'' (four_columns 8 [] [] [] [])))"
    by (simp add: opened_handler_def share_terminated_def sentinel_buf_props)
  show ?thesis
    using h scan_yields_one_row_per_init [OF h, of 2] by blast
qed

text \<open>
  C8, as the code behaves. The only test on the port is \<open>port == 0\<close>. For the
  identifier \<open>host:-5\<close> the parsed port is \<open>-5\<close>, it is not replaced by the
  default port, and \<open>connect\<close> receives the 16-bit port 65531, whatever the
  default port is.
\<close>

theorem negative_port_is_not_replaced:
  assumes "get_share env st0 = Some st" and "\<not> socket_opened (share st)"
    and "0 \<le> socket_ret env" and "table_name st0 = ''host:-5''"
    and "8 \<le> L" and "share_sized L (share st)"
  shows "host_port dport ''host:-5'' = Inr (''host'', - 5) \<and>
         (\<exists>st'. ha_ircon_open dport L env st0 = Inr (0, st') \<and>
                connect_addr st' = Some \<lparr>sin_host = ''host'', sin_port = 65531\<rparr>)"
proof -
  have a: "atoi (lit ''-5'') = Inr (- 5)" by code_simp
  have "host_port dport (''host'' @ '':'' @ ''-5'') =
          (case atoi (lit ''-5'') of Inl e \<Rightarrow> Inl e
           | Inr p \<Rightarrow> Inr (''host'', if p = 0 then dport else p))"
    by (rule host_port_with_colon) (simp_all add: NUL_def)
  then have hp: "host_port dport ''host:-5'' = Inr (''host'', - 5)"
    by (simp add: a)
  have tn: "table_name st = ''host:-5''"
    using get_share_keeps [OF assms(1)] assms(4) by simp
  have w: "(word_of_int (- 5) :: 16 word) = 65531" by simp
  let ?end = "st\<lparr>share := (share st)\<lparr>socket_opened := True, socket := socket_ret env,
                        state_mode := after_reset L (state_mode (share st)),
                        state_temperature := after_reset L (state_temperature (share st)),
                        state_power := after_reset L (state_power (share st)),
                        state_angle := after_reset L (state_angle (share st))\<rparr>,
                      connect_addr := Some \<lparr>sin_host = ''host'', sin_port = word_of_int (- 5)\<rparr>,
                      link_up := (connect_ret env = 0)\<rparr>"
  have o: "ha_ircon_open dport L env st0 = Inr (0, ?end)"
    by (rule open_unconnected [OF assms(1) assms(2) assms(3) _ assms(5) assms(6)])
      (simp add: tn hp)
  have c: "connect_addr ?end = Some \<lparr>sin_host = ''host'', sin_port = 65531\<rparr>"
    by (simp add: w)
  from hp o c show ?thesis
    by (intro exI conjI)
qed

theorem negative_port_is_not_replaced_witness:
  "get_share (answering 8 0) (new_handler ''host:-5'' []) =
     Some ((new_handler ''host:-5'' [])\<lparr>share_set := True, share := fresh_share 8\<rparr>) \<and>
   \<not> socket_opened (share ((new_handler ''host:-5'' [])
                            \<lparr>share_set := True, share := fresh_share 8\<rparr>)) \<and>
   0 \<le> socket_ret (answering 8 0) \<and>
   table_name (new_handler ''host:-5'' []) = ''host:-5'' \<and>
   (8::nat) \<le> 8 \<and>
   share_sized 8 (share ((new_handler ''host:-5'' [])
                            \<lparr>share_set := True, share := fresh_share 8\<rparr>)) \<and>
   host_port 4000 ''host:-5'' = Inr (''host'', - 5) \<and>
   (\<exists>st'. ha_ircon_open 4000 8 (answering 8 0) (new_handler ''host:-5'' []) = Inr (0, st') \<and>
          connect_addr st' = Some \<lparr>sin_host = ''host'', sin_port = 65531\<rparr>)"
proof -
  let ?init = "new_handler ''host:-5'' []"
  let ?got = "?init\<lparr>share_set := True, share := fresh_share 8\<rparr>"
  have h1: "get_share (answering 8 0) ?init = Some ?got"
    by (simp add: get_share_def answering_def new_handler_def fresh_share_def)
  have h2: "\<not> socket_opened (share ?got)" by (simp add: fresh_share_def)
  have h3: "0 \<le> socket_ret (answering 8 0)" by (simp add: answering_def)
  have h4: "table_name ?init = ''host:-5''" by (simp add: new_handler_def)
  have h5: "(8::nat) \<le> 8" by simp
  have h6: "share_sized 8 (share ?got)" by (simp add: share_sized_def fresh_share_def)
  note r = negative_port_is_not_replaced [OF h1 h2 h3 h4 h5 h6, of 4000]
  from h1 h2 h3 h4 h5 h6 r [THEN conjunct1] r [THEN conjunct2]
  show ?thesis by (intro conjI)
qed

text \<open>
  C9. Index read, next, prev, first and last, the positional re-fetch, the bulk
  delete and truncate return the not-supported code, which is not the success
  code, in every state, and hand back the state they were given: share, cache,
  scan flag and bytes sent are the same.
\<close>

theorem unsupported_operations_no_effect:
  "index_read_map st = (HA_ERR_WRONG_COMMAND, st) \<and>
   index_next st = (HA_ERR_WRONG_COMMAND, st) \<and>
   index_prev st = (HA_ERR_WRONG_COMMAND, st) \<and>
   index_first st = (HA_ERR_WRONG_COMMAND, st) \<and>
   index_last st = (HA_ERR_WRONG_COMMAND, st) \<and>
   rnd_pos st = (HA_ERR_WRONG_COMMAND, st) \<and>
   delete_all_rows st = (HA_ERR_WRONG_COMMAND, st) \<and>
   ha_truncate st = (HA_ERR_WRONG_COMMAND, st) \<and>
   HA_ERR_WRONG_COMMAND \<noteq> 0"
  by (simp add: index_read_map_def index_next_def index_prev_def index_first_def
      index_last_def rnd_pos_def delete_all_rows_def ha_truncate_def HA_ERR_WRONG_COMMAND_def)

text \<open>
  C10. \<open>write_row\<close> and \<open>update_row\<close> give the same result (fault, or return
  code and state with cache and bytes sent) for every state and every record
  image passed: both are \<open>write_update_row\<close>, and the images are not read.
\<close>

theorem write_row_update_row_same:
  "write_row buf st = update_row old_data new_data st \<and> write_row buf st = write_update_row st"
  by (simp add: write_row_def update_row_def)

end
